theory Spec2Isabelle
  imports Complex_Main
begin

section \<open>Values and exceptions\<close>

text \<open>
  A Python float, as far as \<open>utils/tuner.py\<close> looks at one: the scores are only
  compared with \<open><\<close>, and \<open>best_score\<close> starts at \<open>float('inf')\<close>. A finite float
  is the real number it denotes; comparison is exact on those.
\<close>

datatype pyfloat = NaN | NegInf | Finite real | PosInf

text \<open>Python's \<open>a < b\<close> on floats: false as soon as one side is NaN.\<close>

fun float_lt :: "pyfloat \<Rightarrow> pyfloat \<Rightarrow> bool" where
  "float_lt NaN b = False"
| "float_lt a NaN = False"
| "float_lt PosInf b = False"
| "float_lt a NegInf = False"
| "float_lt NegInf b = True"
| "float_lt (Finite a) (Finite b) = (a < b)"
| "float_lt (Finite a) PosInf = True"

text \<open>
  Python's \<open>a <= b\<close> on floats. The source never evaluates it; it is what "the score
  is less than or equal to" means when the property is stated.
\<close>

definition float_le :: "pyfloat \<Rightarrow> pyfloat \<Rightarrow> bool" where
  "float_le a b = (a \<noteq> NaN \<and> b \<noteq> NaN \<and> \<not> float_lt b a)"

text \<open>
  The exceptions of the module. \<open>LibraryError n\<close> is an exception of class \<open>n\<close>
  raised inside a collaborator (the ARIMA library, the estimator constructor) and
  propagated unchanged.
\<close>

datatype error = TypeError | KeyError | IndexError | NotImplementedError | LibraryError string

fun exception_class :: "error \<Rightarrow> string" where
  "exception_class TypeError = ''TypeError''"
| "exception_class KeyError = ''KeyError''"
| "exception_class IndexError = ''IndexError''"
| "exception_class NotImplementedError = ''NotImplementedError''"
| "exception_class (LibraryError n) = n"

section \<open>Collaborators and state\<close>

type_synonym cfg = "int \<times> int \<times> int"

text \<open>
  The vector \<open>bse\<close> of a fitted model. statsmodels returns a numpy array when the
  training series is an array, and a pandas Series labelled by the names of the
  parameters (\<open>const\<close>, \<open>ar.L1\<close>, \<open>sigma2\<close>, ...) when the training series is a
  pandas object.
\<close>

datatype bse_vector = NdArray "pyfloat list" | Series "(string \<times> pyfloat) list"

text \<open>
  \<open>bse[i]\<close> for an integer \<open>i\<close> that is not negative. An array is indexed by
  position and raises IndexError out of range. A Series looks the key up among its
  labels; the labels are names, none of them is the integer, and the lookup raises
  KeyError whatever the number of entries (pandas 3; earlier versions fell back to
  the position, with a warning).
\<close>

fun bse_getitem :: "bse_vector \<Rightarrow> nat \<Rightarrow> error + pyfloat" where
  "bse_getitem (NdArray xs) i = (if i < length xs then Inr (xs ! i) else Inl IndexError)"
| "bse_getitem (Series kvs) i = Inl KeyError"

text \<open>What the module reads of a fitted model: \<open>aic\<close>, \<open>bic\<close> and the vector \<open>bse\<close>.\<close>

record fitted =
  aic :: pyfloat
  bic :: pyfloat
  bse :: bse_vector

text \<open>
  The imported collaborators, none of which is defined in \<open>utils/tuner.py\<close>:
  \<open>ARIMA(train, order=cfg)\<close>, \<open>model.fit()\<close> and \<open>ARIMAEstimator(train, order=...)\<close>.
  Each may raise. They are parameters of the model.
\<close>

record ('s, 'm, 'est) lib =
  ARIMA :: "'s \<Rightarrow> cfg \<Rightarrow> error + 'm"
  fit :: "'m \<Rightarrow> error + fitted"
  ARIMAEstimator :: "'s \<Rightarrow> cfg option \<Rightarrow> error + 'est"

text \<open>
  One progress line of \<open>grid_search\<close>: the values that
  \<open>print(f'{method.upper()} score = {score}, cfg = {cfg}')\<close> formats, in that order
  (the method as passed; the rendering as text is not modelled).
\<close>

type_synonym progress = "string \<times> pyfloat option \<times> cfg"

text \<open>
  The objects a call of \<open>grid_search\<close> can reach: the dictionary \<open>param_space\<close> and
  the series \<open>train\<close> it is passed by reference, and the console. \<open>fit_calls\<close> records
  the orders on which \<open>model.fit()\<close> was invoked, in order.
\<close>

record 's store =
  param_space :: "string \<rightharpoonup> int list"
  train :: 's
  stdout :: "progress list"
  fit_calls :: "cfg list"

section \<open>HyperparameterTuner and GARCHTuner\<close>

text \<open>
  \<open>HyperparameterTuner.__init__(self)\<close> takes no argument besides \<open>self\<close>; Python
  raises TypeError when it is called with any. The list holds the positional
  arguments after \<open>self\<close>.
\<close>

definition HyperparameterTuner_init :: "'a list \<Rightarrow> error + unit" where
  "HyperparameterTuner_init args = (if args = [] then Inr () else Inl TypeError)"

text \<open>\<open>ARIMATuner.__init__\<close>: \<open>super().__init__()\<close>.\<close>

definition ARIMATuner_init :: "error + unit" where
  "ARIMATuner_init = HyperparameterTuner_init ([] :: unit list)"

text \<open>\<open>GARCHTuner.__init__(self, df, target)\<close>: \<open>super().__init__(df, target)\<close>.\<close>

definition GARCHTuner_init :: "'a \<Rightarrow> 'b \<Rightarrow> error + unit" where
  "GARCHTuner_init df target = HyperparameterTuner_init [Inl df, Inr target]"

text \<open>
  \<open>GARCHTuner.grid_search(self, p_values, q_values)\<close>: its first statement is
  \<open>raise NotImplementedError\<close>; the statements after it are never reached.
\<close>

definition GARCHTuner_grid_search ::
  "'self \<Rightarrow> 'a \<Rightarrow> 'b \<Rightarrow> 'w \<Rightarrow> (error + 'est) \<times> 'w" where
  "GARCHTuner_grid_search self p_values q_values w = (Inl NotImplementedError, w)"

section \<open>XGBTuner\<close>





section \<open>ARIMATuner\<close>

text \<open>
  The three statements every scorer starts with:
  \<open>cfg = (p, q, d); model = ARIMA(train, order=cfg); model_fit = model.fit()\<close>.
\<close>

definition fit_model ::
  "('s, 'm, 'est) lib \<Rightarrow> int \<Rightarrow> int \<Rightarrow> int \<Rightarrow> 's \<Rightarrow> 's store \<Rightarrow> (error + fitted) \<times> 's store" where
  "fit_model L p q d tr \<sigma> =
     (let cfg = (p, q, d) in
      case ARIMA L tr cfg of
        Inl e \<Rightarrow> (Inl e, \<sigma>)
      | Inr model \<Rightarrow> (fit L model, \<sigma>\<lparr>fit_calls := fit_calls \<sigma> @ [cfg]\<rparr>))"

definition aic_arima_model ::
  "('s, 'm, 'est) lib \<Rightarrow> int \<Rightarrow> int \<Rightarrow> int \<Rightarrow> 's \<Rightarrow> 's store \<Rightarrow> (error + pyfloat) \<times> 's store" where
  "aic_arima_model L p q d tr \<sigma> =
     (case fit_model L p q d tr \<sigma> of
        (Inl e, \<sigma>') \<Rightarrow> (Inl e, \<sigma>')
      | (Inr model_fit, \<sigma>') \<Rightarrow> (Inr (aic model_fit), \<sigma>'))"

definition bic_arima_model ::
  "('s, 'm, 'est) lib \<Rightarrow> int \<Rightarrow> int \<Rightarrow> int \<Rightarrow> 's \<Rightarrow> 's store \<Rightarrow> (error + pyfloat) \<times> 's store" where
  "bic_arima_model L p q d tr \<sigma> =
     (case fit_model L p q d tr \<sigma> of
        (Inl e, \<sigma>') \<Rightarrow> (Inl e, \<sigma>')
      | (Inr model_fit, \<sigma>') \<Rightarrow> (Inr (bic model_fit), \<sigma>'))"

text \<open>\<open>model_fit.bse[1]\<close>: the scorer returns the entry or raises as the indexing does.\<close>

definition bse_arima_model ::
  "('s, 'm, 'est) lib \<Rightarrow> int \<Rightarrow> int \<Rightarrow> int \<Rightarrow> 's \<Rightarrow> 's store \<Rightarrow> (error + pyfloat) \<times> 's store" where
  "bse_arima_model L p q d tr \<sigma> =
     (case fit_model L p q d tr \<sigma> of
        (Inl e, \<sigma>') \<Rightarrow> (Inl e, \<sigma>')
      | (Inr model_fit, \<sigma>') \<Rightarrow>
          (bse_getitem (bse model_fit) 1, \<sigma>'))"

text \<open>The local variables of \<open>grid_search\<close> that its loops update.\<close>

record locals =
  best_score :: pyfloat
  score :: "pyfloat option"
  best_cfg :: "cfg option"

text \<open>
  The body of the innermost loop. With a method that is none of the three, no
  branch assigns \<open>score\<close>; it is still \<open>None\<close> when \<open>score < best_score\<close> is
  evaluated, and Python raises TypeError there.
\<close>

definition body ::
  "('s, 'm, 'est) lib \<Rightarrow> string \<Rightarrow> int \<Rightarrow> int \<Rightarrow> int \<Rightarrow> locals \<Rightarrow> 's store \<Rightarrow> (error + locals) \<times> 's store" where
  "body L method p q d v \<sigma> =
     (let cfg = (p, q, d) in
      case (if method = ''aic'' then
              (case aic_arima_model L p q d (train \<sigma>) \<sigma> of
                 (Inl e, \<sigma>') \<Rightarrow> (Inl e, \<sigma>') | (Inr x, \<sigma>') \<Rightarrow> (Inr (Some x), \<sigma>'))
            else if method = ''bic'' then
              (case bic_arima_model L p q d (train \<sigma>) \<sigma> of
                 (Inl e, \<sigma>') \<Rightarrow> (Inl e, \<sigma>') | (Inr x, \<sigma>') \<Rightarrow> (Inr (Some x), \<sigma>'))
            else if method = ''bse'' then
              (case bse_arima_model L p q d (train \<sigma>) \<sigma> of
                 (Inl e, \<sigma>') \<Rightarrow> (Inl e, \<sigma>') | (Inr x, \<sigma>') \<Rightarrow> (Inr (Some x), \<sigma>'))
            else (Inr (score v), \<sigma>)) of
        (Inl e, \<sigma>') \<Rightarrow> (Inl e, \<sigma>')
      | (Inr sc, \<sigma>') \<Rightarrow>
          (let \<sigma>'' = \<sigma>'\<lparr>stdout := stdout \<sigma>' @ [(method, sc, cfg)]\<rparr> in
           case sc of
             None \<Rightarrow> (Inl TypeError, \<sigma>'')
           | Some x \<Rightarrow>
               if float_lt x (best_score v)
               then (Inr (v\<lparr>best_score := x, score := sc, best_cfg := Some cfg\<rparr>), \<sigma>'')
               else (Inr (v\<lparr>score := sc\<rparr>), \<sigma>'')))"

text \<open>The three nested \<open>for\<close> loops; an exception leaves all of them.\<close>

fun loop_d ::
  "('s, 'm, 'est) lib \<Rightarrow> string \<Rightarrow> int \<Rightarrow> int \<Rightarrow> int list \<Rightarrow> locals \<Rightarrow> 's store \<Rightarrow> (error + locals) \<times> 's store" where
  "loop_d L method p q [] v \<sigma> = (Inr v, \<sigma>)"
| "loop_d L method p q (d # d_values) v \<sigma> =
     (case body L method p q d v \<sigma> of
        (Inl e, \<sigma>') \<Rightarrow> (Inl e, \<sigma>')
      | (Inr v', \<sigma>') \<Rightarrow> loop_d L method p q d_values v' \<sigma>')"

fun loop_q ::
  "('s, 'm, 'est) lib \<Rightarrow> string \<Rightarrow> int \<Rightarrow> int list \<Rightarrow> int list \<Rightarrow> locals \<Rightarrow> 's store \<Rightarrow> (error + locals) \<times> 's store" where
  "loop_q L method p [] d_values v \<sigma> = (Inr v, \<sigma>)"
| "loop_q L method p (q # q_values) d_values v \<sigma> =
     (case loop_d L method p q d_values v \<sigma> of
        (Inl e, \<sigma>') \<Rightarrow> (Inl e, \<sigma>')
      | (Inr v', \<sigma>') \<Rightarrow> loop_q L method p q_values d_values v' \<sigma>')"

fun loop_p ::
  "('s, 'm, 'est) lib \<Rightarrow> string \<Rightarrow> int list \<Rightarrow> int list \<Rightarrow> int list \<Rightarrow> locals \<Rightarrow> 's store \<Rightarrow> (error + locals) \<times> 's store" where
  "loop_p L method [] q_values d_values v \<sigma> = (Inr v, \<sigma>)"
| "loop_p L method (p # p_values) q_values d_values v \<sigma> =
     (case loop_q L method p q_values d_values v \<sigma> of
        (Inl e, \<sigma>') \<Rightarrow> (Inl e, \<sigma>')
      | (Inr v', \<sigma>') \<Rightarrow> loop_p L method p_values q_values d_values v' \<sigma>')"

text \<open>
  \<open>ARIMATuner.grid_search(self, param_space, method, train)\<close>. \<open>param_space['p']\<close>
  raises KeyError on a missing key. The result is the pair \<open>(best_cfg, model)\<close>.
\<close>

definition grid_search ::
  "('s, 'm, 'est) lib \<Rightarrow> string \<Rightarrow> 's store \<Rightarrow> (error + cfg option \<times> 'est) \<times> 's store" where
  "grid_search L method \<sigma> =
     (let v = \<lparr>best_score = PosInf, score = None, best_cfg = None\<rparr> in
      case param_space \<sigma> ''p'' of
        None \<Rightarrow> (Inl KeyError, \<sigma>)
      | Some p_values \<Rightarrow>
     (case param_space \<sigma> ''q'' of
        None \<Rightarrow> (Inl KeyError, \<sigma>)
      | Some q_values \<Rightarrow>
     (case param_space \<sigma> ''d'' of
        None \<Rightarrow> (Inl KeyError, \<sigma>)
      | Some d_values \<Rightarrow>
     (case loop_p L method p_values q_values d_values v \<sigma> of
        (Inl e, \<sigma>') \<Rightarrow> (Inl e, \<sigma>')
      | (Inr v', \<sigma>') \<Rightarrow>
          (case ARIMAEstimator L (train \<sigma>') (best_cfg v') of
             Inl e \<Rightarrow> (Inl e, \<sigma>')
           | Inr model \<Rightarrow> (Inr (best_cfg v', model), \<sigma>'))))))"

section \<open>Stating the properties\<close>

text \<open>
  The order in which the loops of \<open>grid_search\<close> visit the configurations:
  \<open>p\<close> outermost, \<open>q\<close> in the middle, \<open>d\<close> innermost.
\<close>

definition enumeration :: "int list \<Rightarrow> int list \<Rightarrow> int list \<Rightarrow> cfg list" where
  "enumeration p_values q_values d_values =
     concat (map (\<lambda>p. concat (map (\<lambda>q. map (\<lambda>d. (p, q, d)) d_values) q_values)) p_values)"

text \<open>
  The score of a configuration under a method: what the scorer of that method
  returns (or raises) when it is called on the configuration by itself. It is
  only used with one of the three methods of \<open>grid_search\<close>.
\<close>

definition score_of :: "('s, 'm, 'est) lib \<Rightarrow> string \<Rightarrow> 's \<Rightarrow> cfg \<Rightarrow> error + pyfloat" where
  "score_of L method tr c =
     (case c of (p, q, d) \<Rightarrow>
        fst ((if method = ''aic'' then aic_arima_model
              else if method = ''bic'' then bic_arima_model
              else bse_arima_model) L p q d tr
             \<lparr>param_space = Map.empty, train = tr, stdout = [], fit_calls = []\<rparr>))"






text \<open>The loop body run over a list of configurations, one after the other.\<close>

fun run_cfgs ::
  "('s, 'm, 'est) lib \<Rightarrow> string \<Rightarrow> cfg list \<Rightarrow> locals \<Rightarrow> 's store \<Rightarrow> (error + locals) \<times> 's store" where
  "run_cfgs L method [] v \<sigma> = (Inr v, \<sigma>)"
| "run_cfgs L method ((p, q, d) # cs) v \<sigma> =
     (case body L method p q d v \<sigma> of
        (Inl e, \<sigma>') \<Rightarrow> (Inl e, \<sigma>')
      | (Inr v', \<sigma>') \<Rightarrow> run_cfgs L method cs v' \<sigma>')"

text \<open>The step of the search on a configuration whose score is \<open>x\<close>.\<close>

definition improve :: "cfg \<Rightarrow> pyfloat \<Rightarrow> locals \<Rightarrow> locals" where
  "improve c x v =
     (if float_lt x (best_score v) then v\<lparr>best_score := x, score := Some x, best_cfg := Some c\<rparr>
      else v\<lparr>score := Some x\<rparr>)"

text \<open>
  A state that differs from an earlier one by output only: the same \<open>param_space\<close>
  and \<open>train\<close>, lines appended to the console, fits appended to the record of fits.
\<close>

definition extends :: "'s store \<Rightarrow> 's store \<Rightarrow> bool" where
  "extends \<sigma> \<sigma>' =
     (param_space \<sigma>' = param_space \<sigma> \<and> train \<sigma>' = train \<sigma> \<and>
      (\<exists>ls. stdout \<sigma>' = stdout \<sigma> @ ls) \<and> (\<exists>fs. fit_calls \<sigma>' = fit_calls \<sigma> @ fs))"

text \<open>
  Concrete collaborators for the examples: the model of an order is the order,
  the fit is read off a table, and the estimator is the pair of its arguments.
\<close>

definition table_lib :: "(cfg \<Rightarrow> error + fitted) \<Rightarrow> (unit, cfg, unit \<times> cfg option) lib" where
  "table_lib t = \<lparr>ARIMA = (\<lambda>tr c. Inr c), fit = t, ARIMAEstimator = (\<lambda>tr c. Inr (tr, c))\<rparr>"

definition example_fit :: "cfg \<Rightarrow> error + fitted" where
  "example_fit c =
     (case c of (p, q, d) \<Rightarrow>
        Inr \<lparr>aic = Finite (of_int (q + d)), bic = Finite (of_int p), bse = NdArray [Finite 1, Finite (of_int d)]\<rparr>)"

text \<open>Fits for the examples on which a property fails.\<close>

definition single_coefficient_fit :: "cfg \<Rightarrow> error + fitted" where
  "single_coefficient_fit c = Inr \<lparr>aic = Finite 1, bic = Finite 1, bse = NdArray [Finite 1]\<rparr>"

definition infinite_fit :: "cfg \<Rightarrow> error + fitted" where
  "infinite_fit c = Inr \<lparr>aic = PosInf, bic = PosInf, bse = NdArray [Finite 1, PosInf]\<rparr>"

definition nan_first_fit :: "cfg \<Rightarrow> error + fitted" where
  "nan_first_fit c =
     (case c of (p, q, d) \<Rightarrow>
        Inr \<lparr>aic = (if p = 1 then NaN else Finite 5), bic = Finite 1, bse = NdArray [Finite 1, NaN]\<rparr>)"

text \<open>A fit on a pandas series: three coefficients, \<open>bse\<close> labelled by their names.\<close>

definition labelled_fit :: "cfg \<Rightarrow> error + fitted" where
  "labelled_fit c =
     Inr \<lparr>aic = Finite 1, bic = Finite 2,
          bse = Series [(''const'', Finite 1), (''ar.L1'', Finite 2), (''sigma2'', Finite 3)]\<rparr>"

text \<open>Collaborators whose estimator constructor raises.\<close>

definition rejecting_lib :: "(cfg \<Rightarrow> error + fitted) \<Rightarrow> (unit, cfg, unit \<times> cfg option) lib" where
  "rejecting_lib t =
     \<lparr>ARIMA = (\<lambda>tr c. Inr c), fit = t, ARIMAEstimator = (\<lambda>tr c. Inl (LibraryError ''ValueError''))\<rparr>"


definition grid :: "int list \<Rightarrow> int list \<Rightarrow> int list \<Rightarrow> unit store" where
  "grid ps qs ds =
     \<lparr>param_space = [''p'' \<mapsto> ps, ''q'' \<mapsto> qs, ''d'' \<mapsto> ds], train = (), stdout = [], fit_calls = []\<rparr>"

lemmas example_defs = grid_search_def body_def aic_arima_model_def bic_arima_model_def
  bse_arima_model_def fit_model_def table_lib_def example_fit_def single_coefficient_fit_def
  infinite_fit_def nan_first_fit_def labelled_fit_def rejecting_lib_def grid_def score_of_def enumeration_def Let_def float_le_def

section \<open>Comparison of floats\<close>

lemma float_lt_irrefl: "\<not> float_lt a a"
  by (cases a) simp_all

lemma float_lt_trans: "float_lt a b \<Longrightarrow> float_lt b c \<Longrightarrow> float_lt a c"
  by (cases a; cases b; cases c) simp_all

lemma float_lt_asym: "float_lt a b \<Longrightarrow> \<not> float_lt b a"
  by (cases a; cases b) simp_all

lemma float_le_lt_trans: "float_le a b \<Longrightarrow> float_lt b c \<Longrightarrow> float_lt a c"
  by (cases a; cases b; cases c) (simp_all add: float_le_def)

section \<open>The nested loops as one pass over the enumeration\<close>

lemma run_cfgs_append:
  "run_cfgs L method (xs @ ys) v \<sigma> =
     (case run_cfgs L method xs v \<sigma> of
        (Inl e, \<sigma>') \<Rightarrow> (Inl e, \<sigma>')
      | (Inr v', \<sigma>') \<Rightarrow> run_cfgs L method ys v' \<sigma>')"
  by (induction xs arbitrary: v \<sigma>) (auto split: prod.splits sum.splits)

lemma loop_d_run:
  "loop_d L method p q ds v \<sigma> = run_cfgs L method (map (\<lambda>d. (p, q, d)) ds) v \<sigma>"
  by (induction ds arbitrary: v \<sigma>) (auto split: prod.splits sum.splits)

lemma loop_q_run:
  "loop_q L method p qs ds v \<sigma> =
     run_cfgs L method (concat (map (\<lambda>q. map (\<lambda>d. (p, q, d)) ds) qs)) v \<sigma>"
  by (induction qs arbitrary: v \<sigma>)
     (auto simp: run_cfgs_append loop_d_run split: prod.splits sum.splits)

lemma loop_p_run:
  "loop_p L method ps qs ds v \<sigma> = run_cfgs L method (enumeration ps qs ds) v \<sigma>"
  unfolding enumeration_def
  by (induction ps arbitrary: v \<sigma>)
     (auto simp: run_cfgs_append loop_q_run split: prod.splits sum.splits)

section \<open>One pass of the search\<close>

lemma fit_model_fst:
  "fst (fit_model L p q d tr \<sigma>) = (case ARIMA L tr (p, q, d) of Inl e \<Rightarrow> Inl e | Inr m \<Rightarrow> fit L m)"
  by (simp add: fit_model_def Let_def split: sum.splits)

lemma fit_model_snd:
  "snd (fit_model L p q d tr \<sigma>) =
     (case ARIMA L tr (p, q, d) of Inl e \<Rightarrow> \<sigma> | Inr m \<Rightarrow> \<sigma>\<lparr>fit_calls := fit_calls \<sigma> @ [(p, q, d)]\<rparr>)"
  by (simp add: fit_model_def Let_def split: sum.splits)

lemma scorer_fst:
  "fst (aic_arima_model L p q d tr \<sigma>) = fst (aic_arima_model L p q d tr \<sigma>0)"
  "fst (bic_arima_model L p q d tr \<sigma>) = fst (bic_arima_model L p q d tr \<sigma>0)"
  "fst (bse_arima_model L p q d tr \<sigma>) = fst (bse_arima_model L p q d tr \<sigma>0)"
  by (auto simp: aic_arima_model_def bic_arima_model_def bse_arima_model_def fit_model_def Let_def
      split: sum.splits prod.splits)

lemma scorer_snd:
  "snd (aic_arima_model L p q d tr \<sigma>) = snd (fit_model L p q d tr \<sigma>)"
  "snd (bic_arima_model L p q d tr \<sigma>) = snd (fit_model L p q d tr \<sigma>)"
  "snd (bse_arima_model L p q d tr \<sigma>) = snd (fit_model L p q d tr \<sigma>)"
  by (auto simp: aic_arima_model_def bic_arima_model_def bse_arima_model_def
      split: sum.splits prod.splits)

lemma body_scored:
  assumes "method \<in> {''aic'', ''bic'', ''bse''}"
    and "score_of L method (train \<sigma>) (p, q, d) = Inr x"
  shows "\<exists>\<sigma>'. body L method p q d v \<sigma> = (Inr (improve (p, q, d) x v), \<sigma>') \<and> train \<sigma>' = train \<sigma>
     \<and> param_space \<sigma>' = param_space \<sigma>"
proof -
  let ?b = "\<lparr>param_space = Map.empty, train = train \<sigma>, stdout = [], fit_calls = []\<rparr>"
  consider "method = ''aic''" | "method = ''bic''" | "method = ''bse''"
    using assms(1) by auto
  then show ?thesis
  proof cases
    case 1
    obtain r \<sigma>1 where r: "aic_arima_model L p q d (train \<sigma>) \<sigma> = (r, \<sigma>1)"
      by (cases "aic_arima_model L p q d (train \<sigma>) \<sigma>")
    have "r = Inr x"
      using assms(2) 1 r scorer_fst(1)[of L p q d "train \<sigma>" \<sigma> ?b]
      by (simp add: score_of_def)
    moreover have "train \<sigma>1 = train \<sigma> \<and> param_space \<sigma>1 = param_space \<sigma>"
      using r scorer_snd(1)[of L p q d "train \<sigma>" \<sigma>]
      by (auto simp: fit_model_snd split: sum.splits)
    ultimately show ?thesis
      using 1 r by (simp add: body_def improve_def Let_def)
  next
    case 2
    obtain r \<sigma>1 where r: "bic_arima_model L p q d (train \<sigma>) \<sigma> = (r, \<sigma>1)"
      by (cases "bic_arima_model L p q d (train \<sigma>) \<sigma>")
    have "r = Inr x"
      using assms(2) 2 r scorer_fst(2)[of L p q d "train \<sigma>" \<sigma> ?b]
      by (simp add: score_of_def)
    moreover have "train \<sigma>1 = train \<sigma> \<and> param_space \<sigma>1 = param_space \<sigma>"
      using r scorer_snd(2)[of L p q d "train \<sigma>" \<sigma>]
      by (auto simp: fit_model_snd split: sum.splits)
    ultimately show ?thesis
      using 2 r by (simp add: body_def improve_def Let_def)
  next
    case 3
    obtain r \<sigma>1 where r: "bse_arima_model L p q d (train \<sigma>) \<sigma> = (r, \<sigma>1)"
      by (cases "bse_arima_model L p q d (train \<sigma>) \<sigma>")
    have "r = Inr x"
      using assms(2) 3 r scorer_fst(3)[of L p q d "train \<sigma>" \<sigma> ?b]
      by (simp add: score_of_def)
    moreover have "train \<sigma>1 = train \<sigma> \<and> param_space \<sigma>1 = param_space \<sigma>"
      using r scorer_snd(3)[of L p q d "train \<sigma>" \<sigma>]
      by (auto simp: fit_model_snd split: sum.splits)
    ultimately show ?thesis
      using 3 r by (simp add: body_def improve_def Let_def)
  qed
qed


lemma improve_best_cfg:
  "best_cfg (improve c x v) = (if float_lt x (best_score v) then Some c else best_cfg v)"
  "best_score (improve c x v) = (if float_lt x (best_score v) then x else best_score v)"
  by (simp_all add: improve_def)

text \<open>
  What one pass leaves in \<open>best_score\<close> and \<open>best_cfg\<close> when every configuration
  of the list has a score.
\<close>

lemma run_cfgs_best:
  assumes "method \<in> {''aic'', ''bic'', ''bse''}"
    and "\<forall>c \<in> set cs. \<exists>x. score_of L method (train \<sigma>) c = Inr x"
  shows "\<exists>v' \<sigma>'. run_cfgs L method cs v \<sigma> = (Inr v', \<sigma>') \<and> train \<sigma>' = train \<sigma> \<and>
      (\<forall>c \<in> set cs. \<forall>x. score_of L method (train \<sigma>) c = Inr x \<longrightarrow> \<not> float_lt x (best_score v')) \<and>
      ((best_score v' = best_score v \<and> best_cfg v' = best_cfg v) \<or>
       (\<exists>i < length cs. best_cfg v' = Some (cs ! i) \<and>
           score_of L method (train \<sigma>) (cs ! i) = Inr (best_score v') \<and>
           float_lt (best_score v') (best_score v) \<and>
           (\<forall>j < i. \<forall>y. score_of L method (train \<sigma>) (cs ! j) = Inr y \<longrightarrow> \<not> float_le y (best_score v'))))"
  using assms(2)
proof (induction cs arbitrary: v \<sigma>)
  case Nil
  then show ?case by simp
next
  case (Cons c cs)
  obtain p q d where c: "c = (p, q, d)" by (cases c)
  from Cons.prems obtain x where x: "score_of L method (train \<sigma>) (p, q, d) = Inr x"
    unfolding c by auto
  from body_scored[OF assms(1) x, of v] obtain \<sigma>1 where
    b: "body L method p q d v \<sigma> = (Inr (improve (p, q, d) x v), \<sigma>1)" and t1: "train \<sigma>1 = train \<sigma>"
    by blast
  let ?v1 = "improve (p, q, d) x v"
  have "\<forall>c \<in> set cs. \<exists>x. score_of L method (train \<sigma>1) c = Inr x"
    using Cons.prems t1 by simp
  from Cons.IH[OF this, of ?v1] obtain v' \<sigma>' where
    run: "run_cfgs L method cs ?v1 \<sigma>1 = (Inr v', \<sigma>')" and t': "train \<sigma>' = train \<sigma>1"
    and ub: "\<forall>c \<in> set cs. \<forall>x. score_of L method (train \<sigma>1) c = Inr x \<longrightarrow> \<not> float_lt x (best_score v')"
    and alt: "(best_score v' = best_score ?v1 \<and> best_cfg v' = best_cfg ?v1) \<or>
       (\<exists>i < length cs. best_cfg v' = Some (cs ! i) \<and>
           score_of L method (train \<sigma>1) (cs ! i) = Inr (best_score v') \<and>
           float_lt (best_score v') (best_score ?v1) \<and>
           (\<forall>j < i. \<forall>y. score_of L method (train \<sigma>1) (cs ! j) = Inr y \<longrightarrow> \<not> float_le y (best_score v')))"
    by blast
  have run': "run_cfgs L method (c # cs) v \<sigma> = (Inr v', \<sigma>')"
    using b run by (simp add: c)
  have tr: "train \<sigma>' = train \<sigma>" using t' t1 by simp
  show ?case
  proof (cases "float_lt x (best_score v)")
    case True
    then have v1: "best_score ?v1 = x" "best_cfg ?v1 = Some c"
      by (simp_all add: improve_best_cfg c)
    from alt show ?thesis
    proof
      assume same: "best_score v' = best_score ?v1 \<and> best_cfg v' = best_cfg ?v1"
      have "\<forall>c' \<in> set (c # cs). \<forall>y. score_of L method (train \<sigma>) c' = Inr y \<longrightarrow> \<not> float_lt y (best_score v')"
        using ub t1 same v1 x c float_lt_irrefl by auto
      moreover have "\<exists>i < length (c # cs). best_cfg v' = Some ((c # cs) ! i) \<and>
           score_of L method (train \<sigma>) ((c # cs) ! i) = Inr (best_score v') \<and>
           float_lt (best_score v') (best_score v) \<and>
           (\<forall>j < i. \<forall>y. score_of L method (train \<sigma>) ((c # cs) ! j) = Inr y \<longrightarrow> \<not> float_le y (best_score v'))"
        using same v1 x c True by (intro exI[of _ 0]) simp
      ultimately show ?thesis using run' tr by blast
    next
      assume "\<exists>i < length cs. best_cfg v' = Some (cs ! i) \<and>
           score_of L method (train \<sigma>1) (cs ! i) = Inr (best_score v') \<and>
           float_lt (best_score v') (best_score ?v1) \<and>
           (\<forall>j < i. \<forall>y. score_of L method (train \<sigma>1) (cs ! j) = Inr y \<longrightarrow> \<not> float_le y (best_score v'))"
      then obtain i where i: "i < length cs" "best_cfg v' = Some (cs ! i)"
        "score_of L method (train \<sigma>) (cs ! i) = Inr (best_score v')"
        "float_lt (best_score v') x"
        "\<forall>j < i. \<forall>y. score_of L method (train \<sigma>) (cs ! j) = Inr y \<longrightarrow> \<not> float_le y (best_score v')"
        using t1 v1 by auto
      have nx: "\<not> float_lt x (best_score v')" "\<not> float_le x (best_score v')"
        using i(4) float_lt_asym by (auto simp: float_le_def)
      have "\<forall>c' \<in> set (c # cs). \<forall>y. score_of L method (train \<sigma>) c' = Inr y \<longrightarrow> \<not> float_lt y (best_score v')"
        using ub t1 x c nx by auto
      moreover have "\<forall>j < Suc i. \<forall>y. score_of L method (train \<sigma>) ((c # cs) ! j) = Inr y \<longrightarrow> \<not> float_le y (best_score v')"
        using i(5) x c nx by (auto simp: less_Suc_eq_0_disj)
      then have "\<exists>i < length (c # cs). best_cfg v' = Some ((c # cs) ! i) \<and>
           score_of L method (train \<sigma>) ((c # cs) ! i) = Inr (best_score v') \<and>
           float_lt (best_score v') (best_score v) \<and>
           (\<forall>j < i. \<forall>y. score_of L method (train \<sigma>) ((c # cs) ! j) = Inr y \<longrightarrow> \<not> float_le y (best_score v'))"
        using i(1,2,3) float_lt_trans[OF i(4) True] by (intro exI[of _ "Suc i"]) simp
      ultimately show ?thesis using run' tr by blast
    qed
  next
    case False
    then have v1: "best_score ?v1 = best_score v" "best_cfg ?v1 = best_cfg v"
      by (simp_all add: improve_best_cfg)
    from alt show ?thesis
    proof
      assume same: "best_score v' = best_score ?v1 \<and> best_cfg v' = best_cfg ?v1"
      have "\<forall>c' \<in> set (c # cs). \<forall>y. score_of L method (train \<sigma>) c' = Inr y \<longrightarrow> \<not> float_lt y (best_score v')"
        using ub t1 same v1 x c False by auto
      then show ?thesis using run' tr same v1 by auto
    next
      assume "\<exists>i < length cs. best_cfg v' = Some (cs ! i) \<and>
           score_of L method (train \<sigma>1) (cs ! i) = Inr (best_score v') \<and>
           float_lt (best_score v') (best_score ?v1) \<and>
           (\<forall>j < i. \<forall>y. score_of L method (train \<sigma>1) (cs ! j) = Inr y \<longrightarrow> \<not> float_le y (best_score v'))"
      then obtain i where i: "i < length cs" "best_cfg v' = Some (cs ! i)"
        "score_of L method (train \<sigma>) (cs ! i) = Inr (best_score v')"
        "float_lt (best_score v') (best_score v)"
        "\<forall>j < i. \<forall>y. score_of L method (train \<sigma>) (cs ! j) = Inr y \<longrightarrow> \<not> float_le y (best_score v')"
        using t1 v1 by auto
      have nx: "\<not> float_lt x (best_score v')" "\<not> float_le x (best_score v')"
        using i(4) False float_lt_trans float_le_lt_trans by blast+
      have "\<forall>c' \<in> set (c # cs). \<forall>y. score_of L method (train \<sigma>) c' = Inr y \<longrightarrow> \<not> float_lt y (best_score v')"
        using ub t1 x c nx by auto
      moreover have "\<forall>j < Suc i. \<forall>y. score_of L method (train \<sigma>) ((c # cs) ! j) = Inr y \<longrightarrow> \<not> float_le y (best_score v')"
        using i(5) x c nx by (auto simp: less_Suc_eq_0_disj)
      then have "\<exists>i < length (c # cs). best_cfg v' = Some ((c # cs) ! i) \<and>
           score_of L method (train \<sigma>) ((c # cs) ! i) = Inr (best_score v') \<and>
           float_lt (best_score v') (best_score v) \<and>
           (\<forall>j < i. \<forall>y. score_of L method (train \<sigma>) ((c # cs) ! j) = Inr y \<longrightarrow> \<not> float_le y (best_score v'))"
        using i(1,2,3,4) by (intro exI[of _ "Suc i"]) simp
      ultimately show ?thesis using run' tr by blast
    qed
  qed
qed

section \<open>What a call changes\<close>

lemma extends_refl: "extends \<sigma> \<sigma>"
  by (simp add: extends_def)

lemma extends_trans: "extends \<sigma> \<sigma>1 \<Longrightarrow> extends \<sigma>1 \<sigma>2 \<Longrightarrow> extends \<sigma> \<sigma>2"
  by (auto simp: extends_def)

lemma fit_model_extends: "extends \<sigma> (snd (fit_model L p q d tr \<sigma>))"
  by (simp add: fit_model_snd extends_def split: sum.splits)

lemma body_extends: "extends \<sigma> (snd (body L method p q d v \<sigma>))"
proof -
  have print: "\<And>\<sigma>1 l. extends \<sigma> \<sigma>1 \<Longrightarrow> extends \<sigma> (\<sigma>1\<lparr>stdout := stdout \<sigma>1 @ l\<rparr>)"
    by (auto simp: extends_def)
  have s: "extends \<sigma> (snd (aic_arima_model L p q d (train \<sigma>) \<sigma>))"
    "extends \<sigma> (snd (bic_arima_model L p q d (train \<sigma>) \<sigma>))"
    "extends \<sigma> (snd (bse_arima_model L p q d (train \<sigma>) \<sigma>))"
    by (simp_all add: scorer_snd fit_model_extends)
  show ?thesis
    using s print[OF extends_refl] print[OF s(1)] print[OF s(2)] print[OF s(3)]
    by (auto simp: body_def Let_def split: if_splits prod.splits sum.splits option.splits)
qed

lemma run_cfgs_extends: "extends \<sigma> (snd (run_cfgs L method cs v \<sigma>))"
proof (induction cs arbitrary: v \<sigma>)
  case Nil
  show ?case by (simp add: extends_refl)
next
  case (Cons c cs)
  obtain p q d where c: "c = (p, q, d)" by (cases c)
  obtain r \<sigma>1 where b: "body L method p q d v \<sigma> = (r, \<sigma>1)"
    by (cases "body L method p q d v \<sigma>")
  have e1: "extends \<sigma> \<sigma>1" using body_extends[of \<sigma> L "method" p q d v] b by simp
  show ?case
  proof (cases r)
    case (Inl e)
    then show ?thesis using b e1 by (simp add: c)
  next
    case (Inr v1)
    then show ?thesis
      using b extends_trans[OF e1 Cons.IH[where v = v1 and \<sigma> = \<sigma>1]] by (simp add: c)
  qed
qed

lemma grid_search_extends: "extends \<sigma> (snd (grid_search L method \<sigma>))"
proof (cases "\<exists>ps qs ds. param_space \<sigma> ''p'' = Some ps \<and> param_space \<sigma> ''q'' = Some qs \<and>
    param_space \<sigma> ''d'' = Some ds")
  case False
  then show ?thesis
    by (auto simp: grid_search_def extends_refl split: option.splits)
next
  case True
  then obtain ps qs ds where
    k: "param_space \<sigma> ''p'' = Some ps" "param_space \<sigma> ''q'' = Some qs" "param_space \<sigma> ''d'' = Some ds"
    by blast
  let ?v = "\<lparr>best_score = PosInf, score = None, best_cfg = None\<rparr>"
  obtain r \<sigma>' where l: "run_cfgs L method (enumeration ps qs ds) ?v \<sigma> = (r, \<sigma>')"
    by (cases "run_cfgs L method (enumeration ps qs ds) ?v \<sigma>")
  have "extends \<sigma> \<sigma>'"
    using run_cfgs_extends[of \<sigma> L "method" "enumeration ps qs ds" ?v] l by simp
  then show ?thesis
    using k l by (simp add: grid_search_def loop_p_run split: sum.splits)
qed

lemma enumeration_empty:
  "ps = [] \<or> qs = [] \<or> ds = [] \<Longrightarrow> enumeration ps qs ds = []"
  by (auto simp: enumeration_def)

section \<open>The result of the search\<close>

lemma body_replaces:
  assumes "body L method p q d v \<sigma> = (Inr v', \<sigma>')"
  shows "(best_cfg v' = best_cfg v \<and> best_score v' = best_score v) \<or>
     (\<exists>x. score v' = Some x \<and> float_lt x (best_score v) \<and> best_score v' = x \<and> best_cfg v' = Some (p, q, d))"
  using assms
  by (auto simp: body_def Let_def split: if_splits prod.splits sum.splits option.splits)

lemma grid_search_result:
  assumes "param_space \<sigma> ''p'' = Some ps" and "param_space \<sigma> ''q'' = Some qs"
    and "param_space \<sigma> ''d'' = Some ds"
    and m: "method \<in> {''aic'', ''bic'', ''bse''}"
    and sc: "\<forall>c \<in> set (enumeration ps qs ds). \<exists>x. score_of L method (train \<sigma>) c = Inr x"
    and fin: "\<exists>c \<in> set (enumeration ps qs ds). \<exists>x. score_of L method (train \<sigma>) c = Inr x \<and> float_lt x PosInf"
    and est: "\<forall>c \<in> set (enumeration ps qs ds). \<exists>model. ARIMAEstimator L (train \<sigma>) (Some c) = Inr model"
  shows "\<exists>i x model. i < length (enumeration ps qs ds) \<and>
      fst (grid_search L method \<sigma>) = Inr (Some (enumeration ps qs ds ! i), model) \<and>
      ARIMAEstimator L (train \<sigma>) (Some (enumeration ps qs ds ! i)) = Inr model \<and>
      score_of L method (train \<sigma>) (enumeration ps qs ds ! i) = Inr x \<and> float_lt x PosInf \<and>
      (\<forall>c \<in> set (enumeration ps qs ds). \<forall>y. score_of L method (train \<sigma>) c = Inr y \<longrightarrow> \<not> float_lt y x) \<and>
      (\<forall>j < i. \<forall>y. score_of L method (train \<sigma>) (enumeration ps qs ds ! j) = Inr y \<longrightarrow> \<not> float_le y x)"
proof -
  let ?E = "enumeration ps qs ds"
  let ?v = "\<lparr>best_score = PosInf, score = None, best_cfg = None\<rparr>"
  from run_cfgs_best[OF m sc, of ?v] obtain v' \<sigma>' where
    run: "run_cfgs L method ?E ?v \<sigma> = (Inr v', \<sigma>')" and tr: "train \<sigma>' = train \<sigma>"
    and ub: "\<forall>c \<in> set ?E. \<forall>x. score_of L method (train \<sigma>) c = Inr x \<longrightarrow> \<not> float_lt x (best_score v')"
    and alt: "(best_score v' = best_score ?v \<and> best_cfg v' = best_cfg ?v) \<or>
       (\<exists>i < length ?E. best_cfg v' = Some (?E ! i) \<and>
           score_of L method (train \<sigma>) (?E ! i) = Inr (best_score v') \<and>
           float_lt (best_score v') (best_score ?v) \<and>
           (\<forall>j < i. \<forall>y. score_of L method (train \<sigma>) (?E ! j) = Inr y \<longrightarrow> \<not> float_le y (best_score v')))"
    by blast
  have "best_score v' \<noteq> PosInf"
    using fin ub by auto
  with alt obtain i where i: "i < length ?E" "best_cfg v' = Some (?E ! i)"
    "score_of L method (train \<sigma>) (?E ! i) = Inr (best_score v')"
    "\<forall>j < i. \<forall>y. score_of L method (train \<sigma>) (?E ! j) = Inr y \<longrightarrow> \<not> float_le y (best_score v')"
    "float_lt (best_score v') PosInf"
    by auto
  from est i(1) obtain model where model: "ARIMAEstimator L (train \<sigma>) (Some (?E ! i)) = Inr model"
    using nth_mem by blast
  have "fst (grid_search L method \<sigma>) = Inr (Some (?E ! i), model)"
    using assms(1-3) run tr i(2) model by (simp add: grid_search_def loop_p_run)
  then show ?thesis
    using i ub model by blast
qed

text \<open>
  C1 (as amended). Let \<open>param_space\<close> hold the lists \<open>ps\<close>, \<open>qs\<close>, \<open>ds\<close> under the keys
  \<open>'p'\<close>, \<open>'q'\<close>, \<open>'d'\<close>, let the method be one of \<open>aic\<close>, \<open>bic\<close>, \<open>bse\<close>, let the scorer
  of the method return a score on every combination (the model is built and fitted,
  and under \<open>bse\<close> the lookup \<open>bse[1]\<close> yields an entry), let one of these scores be below
  \<open>+inf\<close> (so the lists are not empty), and let the estimator constructor accept the
  combinations. Then \<open>grid_search\<close> returns a configuration of the product of the
  lists, and the score of that configuration is less than or equal to the score of
  every combination whose score is not NaN.
\<close>

theorem grid_search_optimal:
  assumes "param_space \<sigma> ''p'' = Some ps" and "param_space \<sigma> ''q'' = Some qs"
    and "param_space \<sigma> ''d'' = Some ds"
    and "method \<in> {''aic'', ''bic'', ''bse''}"
    and "\<forall>c \<in> set (enumeration ps qs ds). \<exists>x. score_of L method (train \<sigma>) c = Inr x"
    and "\<exists>c \<in> set (enumeration ps qs ds). \<exists>x. score_of L method (train \<sigma>) c = Inr x \<and> float_lt x PosInf"
    and "\<forall>c \<in> set (enumeration ps qs ds). \<exists>model. ARIMAEstimator L (train \<sigma>) (Some c) = Inr model"
  shows "\<exists>c x model. fst (grid_search L method \<sigma>) = Inr (Some c, model) \<and>
      c \<in> set (enumeration ps qs ds) \<and> score_of L method (train \<sigma>) c = Inr x \<and>
      (\<forall>c' \<in> set (enumeration ps qs ds). \<forall>y. score_of L method (train \<sigma>) c' = Inr y \<and> y \<noteq> NaN \<longrightarrow> float_le x y)"
proof -
  let ?E = "enumeration ps qs ds"
  from grid_search_result[OF assms] obtain i x model where
    r: "i < length ?E" "fst (grid_search L method \<sigma>) = Inr (Some (?E ! i), model)"
      "score_of L method (train \<sigma>) (?E ! i) = Inr x"
      "\<forall>c \<in> set ?E. \<forall>y. score_of L method (train \<sigma>) c = Inr y \<longrightarrow> \<not> float_lt y x"
      "float_lt x PosInf"
    by blast
  have "x \<noteq> NaN"
    using r(5) by (cases x) simp_all
  then have "\<forall>c' \<in> set ?E. \<forall>y. score_of L method (train \<sigma>) c' = Inr y \<and> y \<noteq> NaN \<longrightarrow> float_le x y"
    using r(4) by (auto simp: float_le_def)
  then show ?thesis using r(1,2,3) nth_mem by blast
qed

theorem grid_search_optimal_witness:
  "fst (grid_search (table_lib example_fit) ''bic'' (grid [2, 1] [1] [0])) =
      Inr (Some (1, 1, 0), ((), Some (1, 1, 0))) \<and>
   (\<exists>c x model.
      fst (grid_search (table_lib example_fit) ''bic'' (grid [2, 1] [1] [0])) = Inr (Some c, model) \<and>
      c \<in> set (enumeration [2, 1] [1] [0]) \<and>
      score_of (table_lib example_fit) ''bic'' (train (grid [2, 1] [1] [0])) c = Inr x \<and>
      (\<forall>c' \<in> set (enumeration [2, 1] [1] [0]). \<forall>y.
          score_of (table_lib example_fit) ''bic'' (train (grid [2, 1] [1] [0])) c' = Inr y \<and> y \<noteq> NaN
          \<longrightarrow> float_le x y))"
proof
  show "fst (grid_search (table_lib example_fit) ''bic'' (grid [2, 1] [1] [0])) =
      Inr (Some (1, 1, 0), ((), Some (1, 1, 0)))"
    by (simp add: example_defs)
next
  show "\<exists>c x model.
      fst (grid_search (table_lib example_fit) ''bic'' (grid [2, 1] [1] [0])) = Inr (Some c, model) \<and>
      c \<in> set (enumeration [2, 1] [1] [0]) \<and>
      score_of (table_lib example_fit) ''bic'' (train (grid [2, 1] [1] [0])) c = Inr x \<and>
      (\<forall>c' \<in> set (enumeration [2, 1] [1] [0]). \<forall>y.
          score_of (table_lib example_fit) ''bic'' (train (grid [2, 1] [1] [0])) c' = Inr y \<and> y \<noteq> NaN
          \<longrightarrow> float_le x y)"
    by (rule grid_search_optimal[where ps = "[2, 1]" and qs = "[1]" and ds = "[0]"])
       (simp_all add: example_defs)
qed

text \<open>
  C1 as stated fails in three ways, each on non-empty lists of non-negative integers
  with every fit succeeding. Under \<open>bse\<close>, a fitted model with one coefficient makes
  the scorer raise IndexError, and so the search. When every score is \<open>+inf\<close>, no
  score is below the initial \<open>best_score\<close> and the search returns \<open>None\<close> for the
  configuration. When the first score is NaN and the second is 5, the search returns
  the second configuration, whose score is not less than or equal to NaN.
\<close>

theorem grid_search_optimal_counterexample:
  "fst (grid_search (table_lib single_coefficient_fit) ''bse'' (grid [0] [1] [0])) = Inl IndexError \<and>
   fst (grid_search (table_lib infinite_fit) ''bic'' (grid [1] [1] [0])) = Inr (None, ((), None)) \<and>
   fst (grid_search (table_lib nan_first_fit) ''aic'' (grid [1, 2] [1] [0])) =
      Inr (Some (2, 1, 0), ((), Some (2, 1, 0))) \<and>
   score_of (table_lib nan_first_fit) ''aic'' () (2, 1, 0) = Inr (Finite 5) \<and>
   score_of (table_lib nan_first_fit) ''aic'' () (1, 1, 0) = Inr NaN \<and>
   \<not> float_le (Finite 5) NaN"
  by (simp add: example_defs)

text \<open>
  C2 (as amended). Under the same conditions, the configuration that \<open>grid_search\<close>
  returns stands at a position \<open>i\<close> of the enumeration (\<open>p\<close> outermost, \<open>d\<close> innermost)
  whose score is a number, such that no combination has a lower score and every
  combination before \<open>i\<close> has a score that is not less than or equal to it: of the combinations that attain the
  minimum it is the first. And one run of the loop body leaves \<open>best_cfg\<close> and
  \<open>best_score\<close> as they were unless the new score is strictly below \<open>best_score\<close>.
\<close>

theorem grid_search_first_of_ties:
  assumes "param_space \<sigma> ''p'' = Some ps" and "param_space \<sigma> ''q'' = Some qs"
    and "param_space \<sigma> ''d'' = Some ds"
    and "method \<in> {''aic'', ''bic'', ''bse''}"
    and "\<forall>c \<in> set (enumeration ps qs ds). \<exists>x. score_of L method (train \<sigma>) c = Inr x"
    and "\<exists>c \<in> set (enumeration ps qs ds). \<exists>x. score_of L method (train \<sigma>) c = Inr x \<and> float_lt x PosInf"
    and "\<forall>c \<in> set (enumeration ps qs ds). \<exists>model. ARIMAEstimator L (train \<sigma>) (Some c) = Inr model"
  shows "(\<exists>i x model. i < length (enumeration ps qs ds) \<and>
      fst (grid_search L method \<sigma>) = Inr (Some (enumeration ps qs ds ! i), model) \<and>
      score_of L method (train \<sigma>) (enumeration ps qs ds ! i) = Inr x \<and> x \<noteq> NaN \<and>
      (\<forall>j < length (enumeration ps qs ds). \<forall>y.
          score_of L method (train \<sigma>) (enumeration ps qs ds ! j) = Inr y \<longrightarrow> \<not> float_lt y x) \<and>
      (\<forall>j < i. \<forall>y. score_of L method (train \<sigma>) (enumeration ps qs ds ! j) = Inr y \<longrightarrow> \<not> float_le y x))
    \<and> (\<forall>p q d v \<sigma>1 v' \<sigma>2. body L method p q d v \<sigma>1 = (Inr v', \<sigma>2) \<longrightarrow>
          (best_cfg v' = best_cfg v \<and> best_score v' = best_score v) \<or>
          (\<exists>x. score v' = Some x \<and> float_lt x (best_score v) \<and> best_score v' = x \<and> best_cfg v' = Some (p, q, d)))"
proof
  let ?E = "enumeration ps qs ds"
  from grid_search_result[OF assms] obtain i x model where
    r: "i < length ?E" "fst (grid_search L method \<sigma>) = Inr (Some (?E ! i), model)"
      "score_of L method (train \<sigma>) (?E ! i) = Inr x"
      "\<forall>c \<in> set ?E. \<forall>y. score_of L method (train \<sigma>) c = Inr y \<longrightarrow> \<not> float_lt y x"
      "\<forall>j < i. \<forall>y. score_of L method (train \<sigma>) (?E ! j) = Inr y \<longrightarrow> \<not> float_le y x"
      "float_lt x PosInf"
    by blast
  have nn: "x \<noteq> NaN" using r(6) by (cases x) simp_all
  from r(4) have "\<forall>j < length ?E. \<forall>y. score_of L method (train \<sigma>) (?E ! j) = Inr y \<longrightarrow> \<not> float_lt y x"
    using nth_mem by blast
  with r(1,2,3,5) nn show "\<exists>i x model. i < length ?E \<and>
      fst (grid_search L method \<sigma>) = Inr (Some (?E ! i), model) \<and>
      score_of L method (train \<sigma>) (?E ! i) = Inr x \<and> x \<noteq> NaN \<and>
      (\<forall>j < length ?E. \<forall>y. score_of L method (train \<sigma>) (?E ! j) = Inr y \<longrightarrow> \<not> float_lt y x) \<and>
      (\<forall>j < i. \<forall>y. score_of L method (train \<sigma>) (?E ! j) = Inr y \<longrightarrow> \<not> float_le y x)"
    by blast
next
  show "\<forall>p q d v \<sigma>1 v' \<sigma>2. body L method p q d v \<sigma>1 = (Inr v', \<sigma>2) \<longrightarrow>
          (best_cfg v' = best_cfg v \<and> best_score v' = best_score v) \<or>
          (\<exists>x. score v' = Some x \<and> float_lt x (best_score v) \<and> best_score v' = x \<and> best_cfg v' = Some (p, q, d))"
    using body_replaces by blast
qed

theorem grid_search_first_of_ties_witness:
  "fst (grid_search (table_lib example_fit) ''aic'' (grid [2, 1] [1] [0])) =
      Inr (Some (2, 1, 0), ((), Some (2, 1, 0))) \<and>
   score_of (table_lib example_fit) ''aic'' () (2, 1, 0) = Inr (Finite 1) \<and>
   score_of (table_lib example_fit) ''aic'' () (1, 1, 0) = Inr (Finite 1) \<and>
   (\<exists>i x model. i < length (enumeration [2, 1] [1] [0]) \<and>
      fst (grid_search (table_lib example_fit) ''aic'' (grid [2, 1] [1] [0])) =
        Inr (Some (enumeration [2, 1] [1] [0] ! i), model) \<and>
      score_of (table_lib example_fit) ''aic'' (train (grid [2, 1] [1] [0]))
        (enumeration [2, 1] [1] [0] ! i) = Inr x \<and> x \<noteq> NaN \<and>
      (\<forall>j < length (enumeration [2, 1] [1] [0]). \<forall>y.
          score_of (table_lib example_fit) ''aic'' (train (grid [2, 1] [1] [0]))
            (enumeration [2, 1] [1] [0] ! j) = Inr y \<longrightarrow> \<not> float_lt y x) \<and>
      (\<forall>j < i. \<forall>y.
          score_of (table_lib example_fit) ''aic'' (train (grid [2, 1] [1] [0]))
            (enumeration [2, 1] [1] [0] ! j) = Inr y \<longrightarrow> \<not> float_le y x))"
proof -
  have "fst (grid_search (table_lib example_fit) ''aic'' (grid [2, 1] [1] [0])) =
      Inr (Some (2, 1, 0), ((), Some (2, 1, 0))) \<and>
   score_of (table_lib example_fit) ''aic'' () (2, 1, 0) = Inr (Finite 1) \<and>
   score_of (table_lib example_fit) ''aic'' () (1, 1, 0) = Inr (Finite 1)"
    by (simp add: example_defs)
  moreover have "\<exists>i x model. i < length (enumeration [2, 1] [1] [0]) \<and>
      fst (grid_search (table_lib example_fit) ''aic'' (grid [2, 1] [1] [0])) =
        Inr (Some (enumeration [2, 1] [1] [0] ! i), model) \<and>
      score_of (table_lib example_fit) ''aic'' (train (grid [2, 1] [1] [0]))
        (enumeration [2, 1] [1] [0] ! i) = Inr x \<and> x \<noteq> NaN \<and>
      (\<forall>j < length (enumeration [2, 1] [1] [0]). \<forall>y.
          score_of (table_lib example_fit) ''aic'' (train (grid [2, 1] [1] [0]))
            (enumeration [2, 1] [1] [0] ! j) = Inr y \<longrightarrow> \<not> float_lt y x) \<and>
      (\<forall>j < i. \<forall>y.
          score_of (table_lib example_fit) ''aic'' (train (grid [2, 1] [1] [0]))
            (enumeration [2, 1] [1] [0] ! j) = Inr y \<longrightarrow> \<not> float_le y x)"
    by (rule conjunct1,
        rule grid_search_first_of_ties[where ps = "[2, 1]" and qs = "[1]" and ds = "[0]"])
       (simp_all add: example_defs)
  ultimately show ?thesis by blast
qed

text \<open>
  C2 as stated fails when the minimum is \<open>+inf\<close>: here both configurations score
  \<open>+inf\<close>, neither is below the initial \<open>best_score\<close>, and the search returns \<open>None\<close>
  instead of the first of the two.
\<close>

theorem grid_search_first_of_ties_counterexample:
  "fst (grid_search (table_lib infinite_fit) ''aic'' (grid [1, 2] [1] [0])) = Inr (None, ((), None)) \<and>
   score_of (table_lib infinite_fit) ''aic'' () (1, 1, 0) = Inr PosInf \<and>
   score_of (table_lib infinite_fit) ''aic'' () (2, 1, 0) = Inr PosInf \<and>
   enumeration [1, 2] [1] [0] = [(1, 1, 0), (2, 1, 0)]"
  by (simp add: example_defs)

lemma grid_search_selects:
  assumes "param_space \<sigma> ''p'' = Some ps" and "param_space \<sigma> ''q'' = Some qs"
    and "param_space \<sigma> ''d'' = Some ds"
    and m: "method \<in> {''aic'', ''bic'', ''bse''}"
    and sc: "\<forall>c \<in> set (enumeration ps qs ds). \<exists>x. score_of L method (train \<sigma>) c = Inr x"
    and fin: "\<exists>c \<in> set (enumeration ps qs ds). \<exists>x. score_of L method (train \<sigma>) c = Inr x \<and> float_lt x PosInf"
  shows "\<exists>i x. i < length (enumeration ps qs ds) \<and>
      score_of L method (train \<sigma>) (enumeration ps qs ds ! i) = Inr x \<and> float_lt x PosInf \<and>
      (\<forall>c \<in> set (enumeration ps qs ds). \<forall>y. score_of L method (train \<sigma>) c = Inr y \<longrightarrow> \<not> float_lt y x) \<and>
      (\<forall>j < i. \<forall>y. score_of L method (train \<sigma>) (enumeration ps qs ds ! j) = Inr y \<longrightarrow> \<not> float_le y x) \<and>
      fst (grid_search L method \<sigma>) =
        (case ARIMAEstimator L (train \<sigma>) (Some (enumeration ps qs ds ! i)) of
           Inl e \<Rightarrow> Inl e
         | Inr model \<Rightarrow> Inr (Some (enumeration ps qs ds ! i), model))"
proof -
  let ?E = "enumeration ps qs ds"
  let ?v = "\<lparr>best_score = PosInf, score = None, best_cfg = None\<rparr>"
  from run_cfgs_best[OF m sc, of ?v] obtain v' \<sigma>' where
    run: "run_cfgs L method ?E ?v \<sigma> = (Inr v', \<sigma>')" and tr: "train \<sigma>' = train \<sigma>"
    and ub: "\<forall>c \<in> set ?E. \<forall>x. score_of L method (train \<sigma>) c = Inr x \<longrightarrow> \<not> float_lt x (best_score v')"
    and alt: "(best_score v' = best_score ?v \<and> best_cfg v' = best_cfg ?v) \<or>
       (\<exists>i < length ?E. best_cfg v' = Some (?E ! i) \<and>
           score_of L method (train \<sigma>) (?E ! i) = Inr (best_score v') \<and>
           float_lt (best_score v') (best_score ?v) \<and>
           (\<forall>j < i. \<forall>y. score_of L method (train \<sigma>) (?E ! j) = Inr y \<longrightarrow> \<not> float_le y (best_score v')))"
    by blast
  have "best_score v' \<noteq> PosInf"
    using fin ub by auto
  with alt obtain i where i: "i < length ?E" "best_cfg v' = Some (?E ! i)"
    "score_of L method (train \<sigma>) (?E ! i) = Inr (best_score v')"
    "\<forall>j < i. \<forall>y. score_of L method (train \<sigma>) (?E ! j) = Inr y \<longrightarrow> \<not> float_le y (best_score v')"
    "float_lt (best_score v') PosInf"
    by auto
  have "fst (grid_search L method \<sigma>) =
        (case ARIMAEstimator L (train \<sigma>) (Some (?E ! i)) of
           Inl e \<Rightarrow> Inl e
         | Inr model \<Rightarrow> Inr (Some (?E ! i), model))"
    using assms(1-3) run tr i(2) by (simp add: grid_search_def loop_p_run split: sum.splits)
  then show ?thesis
    using i ub by blast
qed

text \<open>
  C6 (as amended). Let the method be one of the three, let its scorer return a
  score on every combination, and let one of these scores be below \<open>+inf\<close>. Then
  the search selects the configuration at a position \<open>i\<close> of the enumeration whose
  score is a number that no combination undercuts and that every combination before
  \<open>i\<close> fails to reach; \<open>grid_search\<close> calls the estimator constructor with the training
  series it was passed and exactly that configuration, returns the pair of the
  configuration and the constructed estimator when the constructor returns, and
  fails as the constructor fails otherwise.
\<close>

theorem grid_search_returns_best_and_estimator:
  assumes "param_space \<sigma> ''p'' = Some ps" and "param_space \<sigma> ''q'' = Some qs"
    and "param_space \<sigma> ''d'' = Some ds"
    and "method \<in> {''aic'', ''bic'', ''bse''}"
    and "\<forall>c \<in> set (enumeration ps qs ds). \<exists>x. score_of L method (train \<sigma>) c = Inr x"
    and "\<exists>c \<in> set (enumeration ps qs ds). \<exists>x. score_of L method (train \<sigma>) c = Inr x \<and> float_lt x PosInf"
  shows "\<exists>i x. i < length (enumeration ps qs ds) \<and>
      score_of L method (train \<sigma>) (enumeration ps qs ds ! i) = Inr x \<and> x \<noteq> NaN \<and>
      (\<forall>c \<in> set (enumeration ps qs ds). \<forall>y. score_of L method (train \<sigma>) c = Inr y \<longrightarrow> \<not> float_lt y x) \<and>
      (\<forall>j < i. \<forall>y. score_of L method (train \<sigma>) (enumeration ps qs ds ! j) = Inr y \<longrightarrow> \<not> float_le y x) \<and>
      fst (grid_search L method \<sigma>) =
        (case ARIMAEstimator L (train \<sigma>) (Some (enumeration ps qs ds ! i)) of
           Inl e \<Rightarrow> Inl e
         | Inr model \<Rightarrow> Inr (Some (enumeration ps qs ds ! i), model))"
proof -
  let ?E = "enumeration ps qs ds"
  from grid_search_selects[OF assms] obtain i x where
    r: "i < length ?E" "score_of L method (train \<sigma>) (?E ! i) = Inr x" "float_lt x PosInf"
      "\<forall>c \<in> set ?E. \<forall>y. score_of L method (train \<sigma>) c = Inr y \<longrightarrow> \<not> float_lt y x"
      "\<forall>j < i. \<forall>y. score_of L method (train \<sigma>) (?E ! j) = Inr y \<longrightarrow> \<not> float_le y x"
      "fst (grid_search L method \<sigma>) =
        (case ARIMAEstimator L (train \<sigma>) (Some (?E ! i)) of
           Inl e \<Rightarrow> Inl e
         | Inr model \<Rightarrow> Inr (Some (?E ! i), model))"
    by blast
  have "x \<noteq> NaN" using r(3) by (cases x) simp_all
  with r show ?thesis by blast
qed

theorem grid_search_returns_best_and_estimator_witness:
  "fst (grid_search (table_lib example_fit) ''bic'' (grid [2, 1] [1] [0])) =
      Inr (Some (1, 1, 0), ((), Some (1, 1, 0))) \<and>
   ARIMAEstimator (table_lib example_fit) (train (grid [2, 1] [1] [0])) (Some (1, 1, 0)) =
      Inr ((), Some (1, 1, 0)) \<and>
   (\<exists>i x. i < length (enumeration [2, 1] [1] [0]) \<and>
      score_of (table_lib example_fit) ''bic'' (train (grid [2, 1] [1] [0]))
        (enumeration [2, 1] [1] [0] ! i) = Inr x \<and> x \<noteq> NaN \<and>
      (\<forall>c \<in> set (enumeration [2, 1] [1] [0]). \<forall>y.
          score_of (table_lib example_fit) ''bic'' (train (grid [2, 1] [1] [0])) c = Inr y
          \<longrightarrow> \<not> float_lt y x) \<and>
      (\<forall>j < i. \<forall>y.
          score_of (table_lib example_fit) ''bic'' (train (grid [2, 1] [1] [0]))
            (enumeration [2, 1] [1] [0] ! j) = Inr y \<longrightarrow> \<not> float_le y x) \<and>
      fst (grid_search (table_lib example_fit) ''bic'' (grid [2, 1] [1] [0])) =
        (case ARIMAEstimator (table_lib example_fit) (train (grid [2, 1] [1] [0]))
                (Some (enumeration [2, 1] [1] [0] ! i)) of
           Inl e \<Rightarrow> Inl e
         | Inr model \<Rightarrow> Inr (Some (enumeration [2, 1] [1] [0] ! i), model)))"
proof -
  have "fst (grid_search (table_lib example_fit) ''bic'' (grid [2, 1] [1] [0])) =
      Inr (Some (1, 1, 0), ((), Some (1, 1, 0))) \<and>
   ARIMAEstimator (table_lib example_fit) (train (grid [2, 1] [1] [0])) (Some (1, 1, 0)) =
      Inr ((), Some (1, 1, 0))"
    by (simp add: example_defs)
  moreover have "\<exists>i x. i < length (enumeration [2, 1] [1] [0]) \<and>
      score_of (table_lib example_fit) ''bic'' (train (grid [2, 1] [1] [0]))
        (enumeration [2, 1] [1] [0] ! i) = Inr x \<and> x \<noteq> NaN \<and>
      (\<forall>c \<in> set (enumeration [2, 1] [1] [0]). \<forall>y.
          score_of (table_lib example_fit) ''bic'' (train (grid [2, 1] [1] [0])) c = Inr y
          \<longrightarrow> \<not> float_lt y x) \<and>
      (\<forall>j < i. \<forall>y.
          score_of (table_lib example_fit) ''bic'' (train (grid [2, 1] [1] [0]))
            (enumeration [2, 1] [1] [0] ! j) = Inr y \<longrightarrow> \<not> float_le y x) \<and>
      fst (grid_search (table_lib example_fit) ''bic'' (grid [2, 1] [1] [0])) =
        (case ARIMAEstimator (table_lib example_fit) (train (grid [2, 1] [1] [0]))
                (Some (enumeration [2, 1] [1] [0] ! i)) of
           Inl e \<Rightarrow> Inl e
         | Inr model \<Rightarrow> Inr (Some (enumeration [2, 1] [1] [0] ! i), model))"
    by (rule grid_search_returns_best_and_estimator[where ps = "[2, 1]" and qs = "[1]" and ds = "[0]"])
       (simp_all add: example_defs)
  ultimately show ?thesis by blast
qed

text \<open>
  C6 as stated fails in two ways on inputs on which the loops run to their end.
  When every score is \<open>+inf\<close>, the pair that is returned holds \<open>None\<close> and the estimator
  built from \<open>None\<close>, not a configuration. When the estimator constructor raises, the
  loops have selected \<open>(2, 1, 0)\<close> and no pair is returned.
\<close>

theorem grid_search_returns_best_and_estimator_counterexample:
  "fst (grid_search (table_lib infinite_fit) ''bse'' (grid [1, 2] [1] [0])) = Inr (None, ((), None)) \<and>
   fst (loop_p (rejecting_lib example_fit) ''aic'' [2, 1] [1] [0]
          \<lparr>best_score = PosInf, score = None, best_cfg = None\<rparr> (grid [2, 1] [1] [0])) =
      Inr \<lparr>best_score = Finite 1, score = Some (Finite 1), best_cfg = Some (2, 1, 0)\<rparr> \<and>
   fst (grid_search (rejecting_lib example_fit) ''aic'' (grid [2, 1] [1] [0])) =
      Inl (LibraryError ''ValueError'')"
  by (simp add: example_defs)




text \<open>
  C9. Whatever the call and however it ends, the state after \<open>grid_search\<close> has the
  \<open>param_space\<close> and the training series of the state before; the console holds
  the lines it held, followed by the new ones, and likewise the record of fits.
\<close>

theorem grid_search_frame:
  "param_space (snd (grid_search L method \<sigma>)) = param_space \<sigma> \<and>
   train (snd (grid_search L method \<sigma>)) = train \<sigma> \<and>
   (\<exists>ls. stdout (snd (grid_search L method \<sigma>)) = stdout \<sigma> @ ls) \<and>
   (\<exists>fs. fit_calls (snd (grid_search L method \<sigma>)) = fit_calls \<sigma> @ fs)"
  using grid_search_extends[of \<sigma> L "method"] by (simp add: extends_def)

text \<open>
  C4 (as amended). When one of the three lists is empty, \<open>grid_search\<close> runs no
  fit and prints nothing; it calls the estimator constructor with the order \<open>None\<close>
  and returns \<open>(None, model)\<close> when the constructor returns, or fails as the
  constructor fails.
\<close>

theorem grid_search_empty_list:
  assumes "param_space \<sigma> ''p'' = Some ps" and "param_space \<sigma> ''q'' = Some qs"
    and "param_space \<sigma> ''d'' = Some ds"
    and "ps = [] \<or> qs = [] \<or> ds = []"
  shows "grid_search L method \<sigma> =
     (case ARIMAEstimator L (train \<sigma>) None of Inl e \<Rightarrow> Inl e | Inr model \<Rightarrow> Inr (None, model), \<sigma>)"
  using assms(1-3) enumeration_empty[OF assms(4)]
  by (simp add: grid_search_def loop_p_run split: sum.splits)

theorem grid_search_empty_list_witness:
  "grid_search (table_lib example_fit) ''aic'' (grid [] [1] [0]) =
     (case ARIMAEstimator (table_lib example_fit) (train (grid [] [1] [0])) None of
        Inl e \<Rightarrow> Inl e | Inr model \<Rightarrow> Inr (None, model), grid [] [1] [0])"
  by (rule grid_search_empty_list[where ps = "[]" and qs = "[1]" and ds = "[0]"])
     (simp_all add: grid_def)

text \<open>
  C4 as stated fails: with an empty list for \<open>p\<close> and a constructor that accepts
  any order, the call returns the configuration \<open>None\<close>.
\<close>

theorem grid_search_empty_list_counterexample:
  "grid_search (table_lib example_fit) ''aic'' (grid [] [1] [0]) =
     (Inr (None, ((), None)), grid [] [1] [0])"
  by (simp add: example_defs)

text \<open>
  C3 (as amended). With non-empty lists and a method that is none of \<open>aic\<close>, \<open>bic\<close>,
  \<open>bse\<close>, \<open>grid_search\<close> fails in its first iteration with the TypeError of comparing
  the score \<open>None\<close> with \<open>best_score\<close>; it has then printed one progress line and
  performed no fit.
\<close>

theorem grid_search_unsupported_method:
  assumes "param_space \<sigma> ''p'' = Some (p # ps)" and "param_space \<sigma> ''q'' = Some (q # qs)"
    and "param_space \<sigma> ''d'' = Some (d # ds)"
    and "method \<notin> {''aic'', ''bic'', ''bse''}"
  shows "grid_search L method \<sigma> =
     (Inl TypeError, \<sigma>\<lparr>stdout := stdout \<sigma> @ [(method, None, (p, q, d))]\<rparr>)"
  using assms
  by (simp add: grid_search_def body_def)

theorem grid_search_unsupported_method_witness:
  "grid_search (table_lib example_fit) ''unsupported'' (grid [1, 2] [1] [0]) =
     (Inl TypeError,
      (grid [1, 2] [1] [0])\<lparr>stdout := stdout (grid [1, 2] [1] [0]) @ [(''unsupported'', None, (1, 1, 0))]\<rparr>) \<and>
   fit_calls (snd (grid_search (table_lib example_fit) ''unsupported'' (grid [1, 2] [1] [0]))) = []"
proof -
  have "grid_search (table_lib example_fit) ''unsupported'' (grid [1, 2] [1] [0]) =
     (Inl TypeError,
      (grid [1, 2] [1] [0])\<lparr>stdout := stdout (grid [1, 2] [1] [0]) @ [(''unsupported'', None, (1, 1, 0))]\<rparr>)"
    by (rule grid_search_unsupported_method[where ps = "[2]" and qs = "[]" and ds = "[]"])
       (simp_all add: grid_def)
  then show ?thesis by (simp add: grid_def)
qed

text \<open>
  C3 as stated fails: the exception of the call is a TypeError, not an
  InvalidMethodError.
\<close>

theorem grid_search_unsupported_method_counterexample:
  "fst (grid_search (table_lib example_fit) ''unsupported'' (grid [1, 2] [1] [0])) = Inl TypeError \<and>
   exception_class TypeError \<noteq> ''InvalidMethodError''"
  by (simp add: example_defs)

section \<open>The Bayesian search\<close>



section \<open>GARCHTuner\<close>

text \<open>
  C5. Whatever the receiver, the arguments and the state, \<open>GARCHTuner.grid_search\<close>
  raises NotImplementedError, and the state it leaves is the state it found: nothing
  was computed before the failure.
\<close>

theorem GARCHTuner_grid_search_unimplemented:
  "GARCHTuner_grid_search self p_values q_values w = (Inl NotImplementedError, w)
   \<and> exception_class NotImplementedError = ''NotImplementedError''"
  by (simp add: GARCHTuner_grid_search_def)

text \<open>
  C10. \<open>GARCHTuner.__init__\<close> passes \<open>df\<close> and \<open>target\<close> on to
  \<open>HyperparameterTuner.__init__\<close>, which takes no argument, so the construction of a
  GARCHTuner raises TypeError for every \<open>df\<close> and \<open>target\<close>; the constructors that pass
  nothing on (as \<open>ARIMATuner.__init__\<close>) succeed.
\<close>

theorem GARCHTuner_init_fails:
  "GARCHTuner_init df target = Inl TypeError \<and> ARIMATuner_init = Inr ()"
  by (simp add: GARCHTuner_init_def ARIMATuner_init_def HyperparameterTuner_init_def)

end
